theory Spec2Isabelle
  imports Complex_Main
begin

section \<open>The glycerol conversion model of slider.py\<close>

text \<open>
  The numbers of the program (Python ints and floats, mixed freely) are modelled as
  exact reals: rounding, overflow and NaN of IEEE doubles are outside this model.
  A Python dict is an association list in insertion order, its keys distinct.
  Every exception the code can raise is a value of \<open>error\<close>.
\<close>

subsection \<open>Data\<close>

datatype error = KeyError string | ZeroDivisionError

text \<open>One entry of \<open>OPTIMAL_RANGES\<close>; the keys \<open>'min'\<close> and \<open>'max'\<close> carry the names
  of the locals they are read into, since \<open>min\<close> and \<open>max\<close> are constants of HOL.\<close>

record param_info =
  min_val :: real
  max_val :: real
  optimal :: real
  weight :: real
  sensitivity :: real
  base_impact :: real

type_synonym 'v dict = "(string \<times> 'v) list"

definition OPTIMAL_RANGES :: "param_info dict" where
  "OPTIMAL_RANGES =
    [(''t2'', \<lparr>min_val = 195, max_val = 205, optimal = 200,
        weight = 0.27, sensitivity = 0.217985, base_impact = 30\<rparr>),
     (''t3'', \<lparr>min_val = 195, max_val = 205, optimal = 200,
        weight = 0.25, sensitivity = 0.136957, base_impact = 25\<rparr>),
     (''t4'', \<lparr>min_val = 195, max_val = 205, optimal = 200,
        weight = 0.40, sensitivity = 0.181967, base_impact = 25\<rparr>),
     (''t1'', \<lparr>min_val = 190, max_val = 200, optimal = 195,
        weight = 0.10, sensitivity = 0.069769, base_impact = 10\<rparr>),
     (''t5'', \<lparr>min_val = 190, max_val = 200, optimal = 195,
        weight = 0.05, sensitivity = 0.003058, base_impact = 10\<rparr>),
     (''lhsv'', \<lparr>min_val = 0.5, max_val = 0.7, optimal = 0.6,
        weight = 0.05, sensitivity = 0.016678, base_impact = 5\<rparr>),
     (''h2gly_ratio'', \<lparr>min_val = 6, max_val = 7, optimal = 6.5,
        weight = 0.05, sensitivity = 0.004925, base_impact = 5\<rparr>),
     (''liquid_feed'', \<lparr>min_val = 50, max_val = 150, optimal = 100,
        weight = 0.05, sensitivity = 0.000073, base_impact = 5\<rparr>),
     (''hydrogen_flow'', \<lparr>min_val = 300, max_val = 600, optimal = 450,
        weight = 0.05, sensitivity = 0.000058, base_impact = 5\<rparr>),
     (''top_pressure'', \<lparr>min_val = 20, max_val = 40, optimal = 30,
        weight = 0.05, sensitivity = 0.003176, base_impact = 5\<rparr>),
     (''bottom_pressure'', \<lparr>min_val = 15, max_val = 35, optimal = 25,
        weight = 0.05, sensitivity = 0.001230, base_impact = 5\<rparr>),
     (''feed_ph'', \<lparr>min_val = 6, max_val = 8, optimal = 7,
        weight = 0.05, sensitivity = 0.010348, base_impact = 5\<rparr>)]"

text \<open>Subscription \<open>d[k]\<close> of a dict: a missing key raises \<open>KeyError\<close>.\<close>

definition getitem :: "'v dict \<Rightarrow> string \<Rightarrow> error + 'v" where
  "getitem d k = (case map_of d k of None \<Rightarrow> Inl (KeyError k) | Some v \<Rightarrow> Inr v)"

subsection \<open>Library functions the code calls\<close>

text \<open>\<open>scipy.special.expit\<close>, the logistic function.\<close>

definition expit :: "real \<Rightarrow> real" where
  "expit z = 1 / (1 + exp (- z))"

text \<open>\<open>numpy.clip(a, a_min, a_max)\<close>, which is \<open>minimum(a_max, maximum(a, a_min))\<close>.\<close>

definition clip :: "real \<Rightarrow> real \<Rightarrow> real \<Rightarrow> real" where
  "clip a a_min a_max = min a_max (max a a_min)"

subsection \<open>The functions of the model\<close>

definition smooth_transition :: "real \<Rightarrow> real \<Rightarrow> real \<Rightarrow> real" where
  "smooth_transition x center sens = expit (- (x - center) * sens)"

text \<open>The locals \<open>range_size\<close>, \<open>normalized_distance\<close> and \<open>base_effect\<close> of
  \<open>calculate_parameter_impact\<close>, named so that statements can speak of them.\<close>

definition range_size :: "param_info \<Rightarrow> real" where
  "range_size p = max_val p - min_val p"

definition normalized_distance :: "real \<Rightarrow> param_info \<Rightarrow> real" where
  "normalized_distance v p = \<bar>v - optimal p\<bar> / range_size p"

definition base_effect :: "real \<Rightarrow> param_info \<Rightarrow> real" where
  "base_effect v p = smooth_transition (normalized_distance v p) 0 (1 / sensitivity p)"

text \<open>The two divisions raise on a zero divisor, the first one met wins: by
  \<open>range_size\<close> (line 95), then \<open>1/sensitivity\<close> (line 98).\<close>

definition calculate_parameter_impact :: "real \<Rightarrow> param_info \<Rightarrow> error + real" where
  "calculate_parameter_impact v p =
     (if range_size p = 0 then Inl ZeroDivisionError
      else if sensitivity p = 0 then Inl ZeroDivisionError
      else
        let impact = base_impact p * base_effect v p
        in if v < min_val p \<or> v > max_val p
           then let excess = min (\<bar>v - optimal p\<bar> / range_size p) 1
                in Inr (impact * (1 - 0.2 * excess))
           else Inr impact)"

text \<open>The derived parameters at the head of \<open>calculate_total_conversion\<close>:
  \<open>pressure_diff\<close>, \<open>avg_temperature\<close> and \<open>temp_range\<close>. The subscriptions are
  evaluated left to right, so the first missing key is the one reported.\<close>

definition derived_parameters :: "real dict \<Rightarrow> error + real \<times> real \<times> real" where
  "derived_parameters params =
     (case getitem params ''top_pressure'' of Inl e \<Rightarrow> Inl e | Inr top_pressure \<Rightarrow>
     (case getitem params ''bottom_pressure'' of Inl e \<Rightarrow> Inl e | Inr bottom_pressure \<Rightarrow>
     (case getitem params ''t1'' of Inl e \<Rightarrow> Inl e | Inr t1 \<Rightarrow>
     (case getitem params ''t2'' of Inl e \<Rightarrow> Inl e | Inr t2 \<Rightarrow>
     (case getitem params ''t3'' of Inl e \<Rightarrow> Inl e | Inr t3 \<Rightarrow>
     (case getitem params ''t4'' of Inl e \<Rightarrow> Inl e | Inr t4 \<Rightarrow>
     (case getitem params ''t5'' of Inl e \<Rightarrow> Inl e | Inr t5 \<Rightarrow>
        let pressure_diff = top_pressure - bottom_pressure;
            temps = [t1, t2, t3, t4, t5];
            avg_temperature = sum_list temps / real (length temps);
            temp_range = Max (set temps) - Min (set temps)
        in Inr (pressure_diff, avg_temperature, temp_range))))))))"

text \<open>One item of the dict comprehension of lines 119-120.\<close>

definition impact_item :: "string \<times> real \<Rightarrow> error + string \<times> real" where
  "impact_item nv =
     (case nv of (name, v) \<Rightarrow>
       (case getitem OPTIMAL_RANGES name of Inl e \<Rightarrow> Inl e | Inr info \<Rightarrow>
         (case calculate_parameter_impact v info of Inl e \<Rightarrow> Inl e
          | Inr impact \<Rightarrow> Inr (name, impact))))"

text \<open>The comprehension itself: the items in the order of \<open>params.items()\<close>, the
  first exception ending the whole.\<close>

fun calculate_impacts :: "real dict \<Rightarrow> error + real dict" where
  "calculate_impacts [] = Inr []"
| "calculate_impacts (nv # rest) =
     (case impact_item nv of Inl e \<Rightarrow> Inl e | Inr ni \<Rightarrow>
       (case calculate_impacts rest of Inl e \<Rightarrow> Inl e
        | Inr impacts \<Rightarrow> Inr (ni # impacts)))"

text \<open>Lines 122-129: \<open>base_conversion + total_impact\<close>, before the clip.\<close>

definition unclipped_conversion :: "real dict \<Rightarrow> real" where
  "unclipped_conversion impacts =
     (let base_conversion = 60;
          total_impact = sum_list (map snd impacts)
      in base_conversion + total_impact)"

definition calculate_total_conversion :: "real dict \<Rightarrow> error + real \<times> real dict" where
  "calculate_total_conversion params =
     (case derived_parameters params of Inl e \<Rightarrow> Inl e | Inr derived \<Rightarrow>
       (case calculate_impacts params of Inl e \<Rightarrow> Inl e
        | Inr impacts \<Rightarrow> Inr (clip (unclipped_conversion impacts) 0 100, impacts)))"

subsection \<open>The call made by \<open>main\<close>\<close>

text \<open>The dict \<open>params\<close> that \<open>main\<close> builds when every slider stands at its default,
  which is the optimal value of its parameter, keys in the order of lines 193-206.\<close>

definition default_params :: "real dict" where
  "default_params =
    [(''t2'', 200), (''t3'', 200), (''t4'', 200), (''t1'', 195), (''t5'', 195),
     (''lhsv'', 0.6), (''h2gly_ratio'', 6.5), (''liquid_feed'', 100),
     (''hydrogen_flow'', 450), (''top_pressure'', 30), (''bottom_pressure'', 25),
     (''feed_ph'', 7)]"

text \<open>The same dict with the key \<open>lhsv\<close> left out.\<close>

definition params_without_lhsv :: "real dict" where
  "params_without_lhsv = filter (\<lambda>nv. fst nv \<noteq> ''lhsv'') default_params"

subsection \<open>Notions of the specification\<close>

text \<open>A valid spec: \<open>max > min\<close> and \<open>sensitivity > 0\<close>.\<close>

definition valid_spec :: "param_info \<Rightarrow> bool" where
  "valid_spec p \<longleftrightarrow> min_val p < max_val p \<and> 0 < sensitivity p"

text \<open>The twelve parameter names, the keys of \<open>OPTIMAL_RANGES\<close>.\<close>

definition parameter_names :: "string list" where
  "parameter_names = map fst OPTIMAL_RANGES"

text \<open>The seven names that the derived parameters subscript, in the order read, and
  the five other names.\<close>

definition aggregate_names :: "string list" where
  "aggregate_names =
    [''top_pressure'', ''bottom_pressure'', ''t1'', ''t2'', ''t3'', ''t4'', ''t5'']"

definition other_names :: "string list" where
  "other_names = [''lhsv'', ''h2gly_ratio'', ''liquid_feed'', ''hydrogen_flow'', ''feed_ph'']"

definition keys :: "'v dict \<Rightarrow> string list" where
  "keys d = map fst d"

text \<open>A complete parameter set: a dict whose keys are exactly the twelve names.\<close>

definition complete_params :: "real dict \<Rightarrow> bool" where
  "complete_params params \<longleftrightarrow>
     distinct (keys params) \<and> set (keys params) = set parameter_names"

text \<open>The function \<open>calculate_total_conversion\<close> with the three derived parameters
  (lines 113-116) removed and every other line kept.\<close>

definition calculate_total_conversion_no_derived :: "real dict \<Rightarrow> error + real \<times> real dict" where
  "calculate_total_conversion_no_derived params =
     (case calculate_impacts params of Inl e \<Rightarrow> Inl e
      | Inr impacts \<Rightarrow> Inr (clip (unclipped_conversion impacts) 0 100, impacts))"

text \<open>The relation between one item of \<open>params\<close> and its item of the breakdown: the
  same name, and the impact that \<open>calculate_parameter_impact\<close> returns for the value
  under the entry of that name in \<open>OPTIMAL_RANGES\<close>.\<close>

definition impact_of :: "string \<times> real \<Rightarrow> string \<times> real \<Rightarrow> bool" where
  "impact_of nv ni \<longleftrightarrow>
     fst ni = fst nv \<and>
     (\<exists>info. map_of OPTIMAL_RANGES (fst nv) = Some info \<and>
             calculate_parameter_impact (snd nv) info = Inr (snd ni))"

text \<open>The factor of line 106 on the impact, and 1 where the branch of line 104 is not
  taken: with it the value returned is one product.\<close>

definition penalty :: "real \<Rightarrow> param_info \<Rightarrow> real" where
  "penalty v p =
     (if v < min_val p \<or> v > max_val p
      then 1 - 0.2 * min (normalized_distance v p) 1 else 1)"

section \<open>Properties\<close>

subsection \<open>The logistic function\<close>

lemma expit_pos: "0 < expit z"
  by (simp add: expit_def add_pos_pos)

lemma expit_strict_mono: "a < b \<Longrightarrow> expit a < expit b"
  unfolding expit_def by (simp add: frac_less2 add_pos_pos)

lemma expit_zero: "expit 0 = 1 / 2"
  by (simp add: expit_def)

lemma expit_nonpos_le_half: "z \<le> 0 \<Longrightarrow> expit z \<le> 1 / 2"
  using expit_strict_mono [of z 0] by (cases "z = 0") (simp_all add: expit_zero)

lemma expit_neg_less_half: "z < 0 \<Longrightarrow> expit z < 1 / 2"
  using expit_strict_mono [of z 0] by (simp add: expit_zero)

lemma smooth_transition_center: "smooth_transition x x s = 1 / 2"
  by (simp add: smooth_transition_def expit_zero)

lemma clip_bounds: "0 \<le> clip x 0 100 \<and> clip x 0 100 \<le> 100"
  by (simp add: clip_def)

subsection \<open>One parameter\<close>

lemma normalized_distance_nonneg: "valid_spec p \<Longrightarrow> 0 \<le> normalized_distance v p"
  by (simp add: valid_spec_def normalized_distance_def range_size_def)

lemma normalized_distance_pos_iff:
  "valid_spec p \<Longrightarrow> 0 < normalized_distance v p \<longleftrightarrow> v \<noteq> optimal p"
  by (simp add: valid_spec_def normalized_distance_def range_size_def zero_less_divide_iff)

lemma base_effect_pos: "0 < base_effect v p"
  by (simp add: base_effect_def smooth_transition_def expit_pos)

lemma base_effect_le_half:
  assumes "valid_spec p"
  shows "base_effect v p \<le> 1 / 2"
proof -
  have "0 \<le> normalized_distance v p * (1 / sensitivity p)"
    using assms normalized_distance_nonneg [OF assms, of v]
    by (intro mult_nonneg_nonneg) (simp_all add: valid_spec_def)
  then show ?thesis
    unfolding base_effect_def smooth_transition_def
    by (intro expit_nonpos_le_half) simp
qed

lemma base_effect_less_half:
  assumes "valid_spec p" and "v \<noteq> optimal p"
  shows "base_effect v p < 1 / 2"
proof -
  have "0 < normalized_distance v p * (1 / sensitivity p)"
    using assms normalized_distance_pos_iff [OF assms(1), of v]
    by (intro mult_pos_pos) (simp_all add: valid_spec_def)
  then show ?thesis
    unfolding base_effect_def smooth_transition_def
    by (intro expit_neg_less_half) simp
qed

lemma base_effect_optimal: "base_effect (optimal p) p = 1 / 2"
  by (simp add: base_effect_def normalized_distance_def smooth_transition_def expit_zero)

lemma calculate_parameter_impact_valid:
  "valid_spec p \<Longrightarrow>
   calculate_parameter_impact v p = Inr (base_impact p * base_effect v p * penalty v p)"
  by (simp add: calculate_parameter_impact_def valid_spec_def range_size_def penalty_def
      normalized_distance_def Let_def)

lemma penalty_bounds: "valid_spec p \<Longrightarrow> 4 / 5 \<le> penalty v p \<and> penalty v p \<le> 1"
  using normalized_distance_nonneg [of p v] by (simp add: penalty_def min_def)

lemma penalty_optimal: "penalty (optimal p) p = 1"
  by (simp add: penalty_def normalized_distance_def)

subsection \<open>Dicts and the table\<close>

lemma getitem_present: "k \<in> set (keys d) \<Longrightarrow> \<exists>v. getitem d k = Inr v"
  by (cases "map_of d k") (auto simp add: getitem_def keys_def map_of_eq_None_iff)

lemma getitem_absent: "k \<notin> set (keys d) \<Longrightarrow> getitem d k = Inl (KeyError k)"
proof -
  assume "k \<notin> set (keys d)"
  then have "map_of d k = None"
    by (simp add: keys_def map_of_eq_None_iff)
  then show ?thesis
    by (simp add: getitem_def)
qed

lemma getitem_if:
  "getitem d k = (if k \<in> set (keys d) then Inr (the (map_of d k)) else Inl (KeyError k))"
proof (cases "k \<in> set (keys d)")
  case True
  then show ?thesis
    using getitem_present [OF True] by (auto simp add: getitem_def split: option.splits)
next
  case False
  then show ?thesis
    by (simp add: getitem_absent)
qed

lemma OPTIMAL_RANGES_valid: "map_of OPTIMAL_RANGES name = Some info \<Longrightarrow> valid_spec info"
  by (auto simp add: OPTIMAL_RANGES_def valid_spec_def split: if_splits)

lemma parameter_names_eq:
  "parameter_names = [''t2'', ''t3'', ''t4'', ''t1'', ''t5'', ''lhsv'', ''h2gly_ratio'',
     ''liquid_feed'', ''hydrogen_flow'', ''top_pressure'', ''bottom_pressure'', ''feed_ph'']"
  by (simp add: parameter_names_def OPTIMAL_RANGES_def)

lemma aggregate_names_subset: "set aggregate_names \<subseteq> set parameter_names"
  by (simp add: aggregate_names_def parameter_names_eq)

lemma distinct_parameter_names: "distinct parameter_names \<and> length parameter_names = 12"
  by (simp add: parameter_names_eq)

lemma params_without_lhsv_eq:
  "params_without_lhsv =
    [(''t2'', 200), (''t3'', 200), (''t4'', 200), (''t1'', 195), (''t5'', 195),
     (''h2gly_ratio'', 6.5), (''liquid_feed'', 100),
     (''hydrogen_flow'', 450), (''top_pressure'', 30), (''bottom_pressure'', 25),
     (''feed_ph'', 7)]"
  by (simp add: params_without_lhsv_def default_params_def)

subsection \<open>The derived parameters\<close>

lemma derived_parameters_present:
  "set aggregate_names \<subseteq> set (keys params) \<Longrightarrow>
   \<exists>derived. derived_parameters params = Inr derived"
proof -
  assume "set aggregate_names \<subseteq> set (keys params)"
  then have "\<not> isl (derived_parameters params)"
    by (simp add: derived_parameters_def aggregate_names_def getitem_if Let_def)
  then show ?thesis
    by (cases "derived_parameters params") auto
qed

lemma derived_parameters_first_missing:
  "find (\<lambda>k. k \<notin> set (keys params)) aggregate_names = Some missing \<Longrightarrow>
   derived_parameters params = Inl (KeyError missing)"
  by (simp add: derived_parameters_def aggregate_names_def getitem_if split: if_splits)

lemma derived_parameters_default: "\<exists>derived. derived_parameters default_params = Inr derived"
  by (rule derived_parameters_present)
    (simp add: aggregate_names_def keys_def default_params_def)

lemma derived_parameters_without_lhsv:
  "\<exists>derived. derived_parameters params_without_lhsv = Inr derived"
  by (rule derived_parameters_present)
    (simp add: aggregate_names_def keys_def params_without_lhsv_eq)

subsection \<open>The breakdown\<close>

lemma impact_item_known:
  assumes "fst nv \<in> set parameter_names"
  shows "\<exists>ni. impact_item nv = Inr ni \<and> impact_of nv ni"
proof -
  obtain info where info: "map_of OPTIMAL_RANGES (fst nv) = Some info"
    using assms by (cases "map_of OPTIMAL_RANGES (fst nv)")
      (auto simp add: parameter_names_def map_of_eq_None_iff)
  then have "valid_spec info"
    by (rule OPTIMAL_RANGES_valid)
  then show ?thesis
    using info
    by (cases nv) (simp add: impact_item_def impact_of_def getitem_def
        calculate_parameter_impact_valid)
qed

lemma calculate_impacts_known:
  "set (keys params) \<subseteq> set parameter_names \<Longrightarrow>
   \<exists>impacts. calculate_impacts params = Inr impacts \<and> list_all2 impact_of params impacts"
proof (induction params)
  case Nil
  then show ?case by simp
next
  case (Cons nv rest)
  then obtain impacts where
    rest: "calculate_impacts rest = Inr impacts" "list_all2 impact_of rest impacts"
    by (auto simp add: keys_def)
  from Cons.prems obtain ni where "impact_item nv = Inr ni" "impact_of nv ni"
    using impact_item_known [of nv] by (auto simp add: keys_def)
  with rest show ?case by simp
qed

lemma impact_of_keys: "list_all2 impact_of params impacts \<Longrightarrow> keys impacts = keys params"
  by (induction rule: list_all2_induct) (simp_all add: keys_def impact_of_def)

lemma total_conversion_known:
  assumes "set aggregate_names \<subseteq> set (keys params)"
    and "set (keys params) \<subseteq> set parameter_names"
  shows "\<exists>impacts. calculate_impacts params = Inr impacts \<and>
           calculate_total_conversion params =
             Inr (clip (60 + sum_list (map snd impacts)) 0 100, impacts) \<and>
           list_all2 impact_of params impacts \<and> keys impacts = keys params"
proof -
  obtain derived where "derived_parameters params = Inr derived"
    using derived_parameters_present [OF assms(1)] by blast
  moreover obtain impacts where
    "calculate_impacts params = Inr impacts" "list_all2 impact_of params impacts"
    using calculate_impacts_known [OF assms(2)] by blast
  ultimately show ?thesis
    by (simp add: calculate_total_conversion_def unclipped_conversion_def impact_of_keys)
qed

lemma impact_item_optimal:
  assumes "map_of OPTIMAL_RANGES name = Some info"
  shows "impact_item (name, optimal info) = Inr (name, base_impact info / 2)"
  using OPTIMAL_RANGES_valid [OF assms] assms
  by (simp add: impact_item_def getitem_def calculate_parameter_impact_valid
      base_effect_optimal penalty_optimal)

lemma impact_items_default:
  "impact_item (''t2'', 200) = Inr (''t2'', 15)"
  "impact_item (''t3'', 200) = Inr (''t3'', 12.5)"
  "impact_item (''t4'', 200) = Inr (''t4'', 12.5)"
  "impact_item (''t1'', 195) = Inr (''t1'', 5)"
  "impact_item (''t5'', 195) = Inr (''t5'', 5)"
  "impact_item (''lhsv'', 3 / 5) = Inr (''lhsv'', 2.5)"
  "impact_item (''h2gly_ratio'', 13 / 2) = Inr (''h2gly_ratio'', 2.5)"
  "impact_item (''liquid_feed'', 100) = Inr (''liquid_feed'', 2.5)"
  "impact_item (''hydrogen_flow'', 450) = Inr (''hydrogen_flow'', 2.5)"
  "impact_item (''top_pressure'', 30) = Inr (''top_pressure'', 2.5)"
  "impact_item (''bottom_pressure'', 25) = Inr (''bottom_pressure'', 2.5)"
  "impact_item (''feed_ph'', 7) = Inr (''feed_ph'', 2.5)"
  using impact_item_optimal [of "''t2''"] impact_item_optimal [of "''t3''"]
    impact_item_optimal [of "''t4''"] impact_item_optimal [of "''t1''"]
    impact_item_optimal [of "''t5''"] impact_item_optimal [of "''lhsv''"]
    impact_item_optimal [of "''h2gly_ratio''"] impact_item_optimal [of "''liquid_feed''"]
    impact_item_optimal [of "''hydrogen_flow''"] impact_item_optimal [of "''top_pressure''"]
    impact_item_optimal [of "''bottom_pressure''"] impact_item_optimal [of "''feed_ph''"]
  by (simp_all add: OPTIMAL_RANGES_def)

lemma calculate_impacts_default:
  "calculate_impacts default_params =
     Inr [(''t2'', 15), (''t3'', 12.5), (''t4'', 12.5), (''t1'', 5), (''t5'', 5),
       (''lhsv'', 2.5), (''h2gly_ratio'', 2.5), (''liquid_feed'', 2.5),
       (''hydrogen_flow'', 2.5), (''top_pressure'', 2.5), (''bottom_pressure'', 2.5),
       (''feed_ph'', 2.5)]"
  by (simp add: default_params_def impact_items_default)

lemma calculate_impacts_without_lhsv:
  "calculate_impacts params_without_lhsv =
     Inr [(''t2'', 15), (''t3'', 12.5), (''t4'', 12.5), (''t1'', 5), (''t5'', 5),
       (''h2gly_ratio'', 2.5), (''liquid_feed'', 2.5),
       (''hydrogen_flow'', 2.5), (''top_pressure'', 2.5), (''bottom_pressure'', 2.5),
       (''feed_ph'', 2.5)]"
  by (simp add: params_without_lhsv_eq impact_items_default)

section \<open>The claims\<close>

text \<open>
  Claim C1. For a complete parameter set (the twelve names, each once)
  \<open>calculate_total_conversion\<close> raises nothing and returns the conversion
  \<open>clip (60 + sum of the impacts) 0 100\<close> with a breakdown of twelve items, one per item of
  \<open>params\<close> under the same name, each the value of \<open>calculate_parameter_impact\<close> for that
  parameter; the conversion lies in \<open>[0, 100]\<close> whatever the values are.
\<close>

theorem total_conversion_complete:
  assumes "complete_params params"
  shows "\<exists>impacts. calculate_total_conversion params =
             Inr (clip (60 + sum_list (map snd impacts)) 0 100, impacts) \<and>
           list_all2 impact_of params impacts \<and>
           keys impacts = keys params \<and> length impacts = 12 \<and>
           0 \<le> clip (60 + sum_list (map snd impacts)) 0 100 \<and>
           clip (60 + sum_list (map snd impacts)) 0 100 \<le> 100"
proof -
  have sub: "set aggregate_names \<subseteq> set (keys params)" "set (keys params) \<subseteq> set parameter_names"
    using assms aggregate_names_subset by (simp_all add: complete_params_def)
  have d: "distinct (keys params)" and same: "set (keys params) = set parameter_names"
    using assms by (simp_all add: complete_params_def)
  have dn: "distinct parameter_names"
    using distinct_parameter_names by simp
  have "length (keys params) = card (set (keys params))"
    by (rule distinct_card [OF d, symmetric])
  also have "\<dots> = card (set parameter_names)"
    by (simp only: same)
  also have "\<dots> = length parameter_names"
    by (rule distinct_card [OF dn])
  finally have len: "length (keys params) = 12"
    using distinct_parameter_names by simp
  obtain impacts where i:
    "calculate_total_conversion params =
       Inr (clip (60 + sum_list (map snd impacts)) 0 100, impacts)"
    "list_all2 impact_of params impacts" "keys impacts = keys params"
    using total_conversion_known [OF sub] by blast
  have "length (keys impacts) = 12"
    using len i(3) by simp
  then have "length impacts = 12"
    by (simp add: keys_def)
  then show ?thesis
    using i clip_bounds by blast
qed

text \<open>The dict that \<open>main\<close> builds from the slider defaults is complete.\<close>

theorem total_conversion_complete_witness:
  "complete_params default_params \<and>
   (\<exists>impacts. calculate_total_conversion default_params =
       Inr (clip (60 + sum_list (map snd impacts)) 0 100, impacts) \<and>
     keys impacts = keys default_params \<and> length impacts = 12)"
proof -
  have h: "complete_params default_params"
    by (simp add: complete_params_def keys_def default_params_def parameter_names_eq)
  from total_conversion_complete [OF h] h show ?thesis
    by blast
qed

text \<open>
  Claim C2. For every value and every valid spec with a non-negative \<open>base_impact\<close>,
  \<open>calculate_parameter_impact\<close> returns an impact in \<open>[0, base_impact]\<close>, which is at most the
  impact before the boundary penalty, \<open>base_impact * base_effect\<close>: the penalty only reduces.
\<close>

theorem parameter_impact_bounds:
  assumes "valid_spec p" and "0 \<le> base_impact p"
  shows "\<exists>impact. calculate_parameter_impact v p = Inr impact \<and>
           0 \<le> impact \<and> impact \<le> base_impact p \<and>
           impact \<le> base_impact p * base_effect v p"
proof -
  let ?e = "base_impact p * base_effect v p"
  have e0: "0 \<le> ?e"
    using assms(2) base_effect_pos [of v p] by simp
  have "base_impact p * base_effect v p \<le> base_impact p * (1 / 2)"
    using assms(2) base_effect_le_half [OF assms(1), of v] by (intro mult_left_mono)
  then have e1: "?e \<le> base_impact p"
    using assms(2) by simp
  have pen: "0 \<le> penalty v p" "penalty v p \<le> 1"
    using penalty_bounds [OF assms(1), of v] by simp_all
  have "0 \<le> ?e * penalty v p"
    using e0 pen(1) by simp
  moreover have le: "?e * penalty v p \<le> ?e"
    using e0 pen(2) by (simp add: mult_left_le)
  ultimately show ?thesis
    using e1 by (simp add: calculate_parameter_impact_valid [OF assms(1)])
qed

text \<open>The entry of \<open>t2\<close> at 220, far outside its window.\<close>

theorem parameter_impact_bounds_witness:
  "valid_spec \<lparr>min_val = 195, max_val = 205, optimal = 200, weight = 0.27,
       sensitivity = 0.217985, base_impact = 30\<rparr> \<and>
   (0::real) \<le> base_impact \<lparr>min_val = 195, max_val = 205, optimal = 200, weight = 0.27,
       sensitivity = 0.217985, base_impact = 30\<rparr> \<and>
   (\<exists>impact. calculate_parameter_impact 220 \<lparr>min_val = 195, max_val = 205, optimal = 200, weight = 0.27,
       sensitivity = 0.217985, base_impact = 30\<rparr> = Inr impact \<and>
     0 \<le> impact \<and> impact \<le> 30)"
  using parameter_impact_bounds [of "\<lparr>min_val = 195, max_val = 205, optimal = 200, weight = 0.27,
       sensitivity = 0.217985, base_impact = 30\<rparr>" 220]
  by (auto simp add: valid_spec_def)

text \<open>
  Claim C3, amended. The scale of the decay is \<open>1 / sensitivity\<close>, so the smaller
  sensitivity decays faster: for a valid spec and the same spec with a larger sensitivity
  \<open>s2\<close>, at a value of strictly positive normalized distance (the same for both), the spec
  with the smaller sensitivity has the strictly smaller \<open>base_effect\<close>.
\<close>

theorem smaller_sensitivity_smaller_base_effect:
  assumes "valid_spec p" and "sensitivity p < s2" and "0 < normalized_distance v p"
  shows "normalized_distance v (p\<lparr>sensitivity := s2\<rparr>) = normalized_distance v p \<and>
         base_effect v p < base_effect v (p\<lparr>sensitivity := s2\<rparr>)"
proof -
  have s: "0 < sensitivity p" "0 < s2"
    using assms(1,2) by (simp_all add: valid_spec_def)
  have nd: "normalized_distance v (p\<lparr>sensitivity := s2\<rparr>) = normalized_distance v p"
    by (simp add: normalized_distance_def range_size_def)
  have "1 / s2 < 1 / sensitivity p"
    using s assms(2) by (simp add: frac_less2)
  then have "normalized_distance v p * (1 / s2) < normalized_distance v p * (1 / sensitivity p)"
    using assms(3) by (intro mult_strict_left_mono)
  then have "expit (- (normalized_distance v p - 0) * (1 / sensitivity p))
             < expit (- (normalized_distance v p - 0) * (1 / s2))"
    by (intro expit_strict_mono) simp
  then show ?thesis
    using nd by (simp add: base_effect_def smooth_transition_def)
qed

theorem smaller_sensitivity_smaller_base_effect_witness:
  "valid_spec \<lparr>min_val = 195, max_val = 205, optimal = 200, weight = 1,
       sensitivity = 1, base_impact = 30\<rparr> \<and> (1::real) < 2 \<and>
   0 < normalized_distance 205 \<lparr>min_val = 195, max_val = 205, optimal = 200, weight = 1,
       sensitivity = 1, base_impact = 30\<rparr> \<and>
   base_effect 205 \<lparr>min_val = 195, max_val = 205, optimal = 200, weight = 1,
       sensitivity = 1, base_impact = 30\<rparr>
     < base_effect 205 \<lparr>min_val = 195, max_val = 205, optimal = 200, weight = 1,
       sensitivity = 2, base_impact = 30\<rparr>"
  using smaller_sensitivity_smaller_base_effect [of "\<lparr>min_val = 195, max_val = 205, optimal = 200, weight = 1,
       sensitivity = 1, base_impact = 30\<rparr>" 2 205]
  by (simp add: valid_spec_def normalized_distance_def range_size_def)

text \<open>
  Claim C3 as worded fails: two specs equal but for the sensitivities 1 and 2, the value
  205 at normalized distance 1/2 of the optimum 200; the spec of sensitivity 1 does not have
  the larger \<open>base_effect\<close>.
\<close>

theorem smaller_sensitivity_not_larger_base_effect:
  "sensitivity \<lparr>min_val = 195, max_val = 205, optimal = 200, weight = 1,
       sensitivity = 1, base_impact = 30\<rparr>
     < sensitivity \<lparr>min_val = 195, max_val = 205, optimal = 200, weight = 1,
       sensitivity = 2, base_impact = 30\<rparr> \<and>
   0 < normalized_distance 205 \<lparr>min_val = 195, max_val = 205, optimal = 200, weight = 1,
       sensitivity = 1, base_impact = 30\<rparr> \<and>
   normalized_distance 205 \<lparr>min_val = 195, max_val = 205, optimal = 200, weight = 1,
       sensitivity = 1, base_impact = 30\<rparr> =
   normalized_distance 205 \<lparr>min_val = 195, max_val = 205, optimal = 200, weight = 1,
       sensitivity = 2, base_impact = 30\<rparr> \<and>
   \<not> base_effect 205 \<lparr>min_val = 195, max_val = 205, optimal = 200, weight = 1,
       sensitivity = 2, base_impact = 30\<rparr>
     < base_effect 205 \<lparr>min_val = 195, max_val = 205, optimal = 200, weight = 1,
       sensitivity = 1, base_impact = 30\<rparr>"
proof -
  have "expit (- (1 / 2)) < expit (- (1 / 4))"
    by (rule expit_strict_mono) simp
  then show ?thesis
    by (simp add: base_effect_def normalized_distance_def range_size_def
        smooth_transition_def)
qed

text \<open>
  Claim C4, amended. With every parameter at its optimal value (the slider defaults of
  \<open>main\<close>) every impact is half of the \<open>base_impact\<close> of its parameter (15 for \<open>t2\<close>), the
  sum before the clip is \<open>60 + 67.5 = 127.5\<close>, and the conversion returned is 100.
\<close>

theorem default_params_conversion:
  "calculate_total_conversion default_params =
     Inr (100, [(''t2'', 15), (''t3'', 12.5), (''t4'', 12.5), (''t1'', 5), (''t5'', 5),
       (''lhsv'', 2.5), (''h2gly_ratio'', 2.5), (''liquid_feed'', 2.5),
       (''hydrogen_flow'', 2.5), (''top_pressure'', 2.5), (''bottom_pressure'', 2.5),
       (''feed_ph'', 2.5)]) \<and>
   unclipped_conversion [(''t2'', 15), (''t3'', 12.5), (''t4'', 12.5), (''t1'', 5), (''t5'', 5),
       (''lhsv'', 2.5), (''h2gly_ratio'', 2.5), (''liquid_feed'', 2.5),
       (''hydrogen_flow'', 2.5), (''top_pressure'', 2.5), (''bottom_pressure'', 2.5),
       (''feed_ph'', 2.5)] = 127.5"
proof -
  obtain derived where "derived_parameters default_params = Inr derived"
    using derived_parameters_default by blast
  then show ?thesis
    by (simp add: calculate_total_conversion_def calculate_impacts_default
        unclipped_conversion_def clip_def)
qed

text \<open>
  Claim C4 as worded fails: the impacts at the optimal values sum to 20 more than 47.5, and
  the conversion before the clip is 20 more than 107.5.
\<close>

theorem default_params_unclipped_off_by_20:
  "calculate_impacts default_params =
     Inr [(''t2'', 15), (''t3'', 12.5), (''t4'', 12.5), (''t1'', 5), (''t5'', 5),
       (''lhsv'', 2.5), (''h2gly_ratio'', 2.5), (''liquid_feed'', 2.5),
       (''hydrogen_flow'', 2.5), (''top_pressure'', 2.5), (''bottom_pressure'', 2.5),
       (''feed_ph'', 2.5)] \<and>
   sum_list (map snd [(''t2'', 15), (''t3'', 12.5), (''t4'', 12.5), (''t1'', 5), (''t5'', 5),
       (''lhsv'', 2.5), (''h2gly_ratio'', 2.5), (''liquid_feed'', 2.5),
       (''hydrogen_flow'', 2.5), (''top_pressure'', 2.5), (''bottom_pressure'', 2.5),
       (''feed_ph'', 2.5::real)]) - 47.5 = 20 \<and>
   unclipped_conversion [(''t2'', 15), (''t3'', 12.5), (''t4'', 12.5), (''t1'', 5), (''t5'', 5),
       (''lhsv'', 2.5), (''h2gly_ratio'', 2.5), (''liquid_feed'', 2.5),
       (''hydrogen_flow'', 2.5), (''top_pressure'', 2.5), (''bottom_pressure'', 2.5),
       (''feed_ph'', 2.5)] - 107.5 = 20"
  by (simp add: calculate_impacts_default unclipped_conversion_def)

text \<open>
  Claim C5, amended. If the parameter set omits one of the seven names that the derived
  parameters read (\<open>top_pressure\<close>, \<open>bottom_pressure\<close>, \<open>t1\<close> to \<open>t5\<close>),
  \<open>calculate_total_conversion\<close> raises \<open>KeyError\<close> for a missing one of these names and
  returns no result. (A set that omits only names among the other five raises nothing:
  claim C9.)
\<close>

theorem missing_aggregate_name_raises:
  assumes "name \<in> set aggregate_names" and "name \<notin> set (keys params)"
  shows "\<exists>missing. missing \<in> set aggregate_names \<and> missing \<notin> set (keys params) \<and>
           calculate_total_conversion params = Inl (KeyError missing)"
proof -
  have "find (\<lambda>k. k \<notin> set (keys params)) aggregate_names \<noteq> None"
    using assms by (auto simp add: find_None_iff)
  then obtain missing where
    m: "find (\<lambda>k. k \<notin> set (keys params)) aggregate_names = Some missing"
    by blast
  then have "missing \<in> set aggregate_names" "missing \<notin> set (keys params)"
    by (auto simp add: find_Some_iff)
  moreover have "calculate_total_conversion params = Inl (KeyError missing)"
    using derived_parameters_first_missing [OF m] by (simp add: calculate_total_conversion_def)
  ultimately show ?thesis
    by blast
qed

theorem missing_aggregate_name_raises_witness:
  "''t3'' \<in> set aggregate_names \<and> ''t3'' \<notin> set (keys [(''t2'', 200::real)]) \<and>
   (\<exists>missing. calculate_total_conversion [(''t2'', 200)] = Inl (KeyError missing))"
proof -
  have h: "''t3'' \<in> set aggregate_names" "''t3'' \<notin> set (keys [(''t2'', 200::real)])"
    by (simp_all add: aggregate_names_def keys_def)
  from missing_aggregate_name_raises [OF h] h show ?thesis
    by blast
qed

text \<open>
  Claim C5 as worded fails: the slider defaults without the required name \<open>lhsv\<close> raise
  nothing; a conversion and a breakdown of eleven items are returned.
\<close>

theorem missing_lhsv_returns_result:
  "''lhsv'' \<in> set parameter_names \<and> ''lhsv'' \<notin> set (keys params_without_lhsv) \<and>
   calculate_total_conversion params_without_lhsv =
     Inr (100, [(''t2'', 15), (''t3'', 12.5), (''t4'', 12.5), (''t1'', 5), (''t5'', 5),
       (''h2gly_ratio'', 2.5), (''liquid_feed'', 2.5),
       (''hydrogen_flow'', 2.5), (''top_pressure'', 2.5), (''bottom_pressure'', 2.5),
       (''feed_ph'', 2.5)])"
proof -
  have "''lhsv'' \<in> set parameter_names" "''lhsv'' \<notin> set (keys params_without_lhsv)"
    by (simp_all add: parameter_names_eq keys_def params_without_lhsv_eq)
  moreover obtain derived where "derived_parameters params_without_lhsv = Inr derived"
    using derived_parameters_without_lhsv by blast
  ultimately show ?thesis
    by (simp add: calculate_total_conversion_def calculate_impacts_without_lhsv
        unclipped_conversion_def clip_def)
qed

text \<open>
  Claim C6. The penalty branch is taken only strictly outside the window: for a valid spec
  the impact at \<open>min\<close> and the impact at \<open>max\<close> are \<open>base_impact\<close> times
  \<open>smooth_transition\<close> of the normalized distance, with no penalty factor.
\<close>

theorem boundary_value_no_penalty:
  assumes "valid_spec p"
  shows "calculate_parameter_impact (min_val p) p =
           Inr (base_impact p *
             smooth_transition (\<bar>min_val p - optimal p\<bar> / range_size p) 0 (1 / sensitivity p)) \<and>
         calculate_parameter_impact (max_val p) p =
           Inr (base_impact p *
             smooth_transition (\<bar>max_val p - optimal p\<bar> / range_size p) 0 (1 / sensitivity p))"
  using assms
  by (simp add: calculate_parameter_impact_def valid_spec_def range_size_def
      base_effect_def normalized_distance_def)

theorem boundary_value_no_penalty_witness:
  "valid_spec \<lparr>min_val = 195, max_val = 205, optimal = 200, weight = 0.27,
       sensitivity = 0.217985, base_impact = 30\<rparr> \<and>
   calculate_parameter_impact 195 \<lparr>min_val = 195, max_val = 205, optimal = 200, weight = 0.27,
       sensitivity = 0.217985, base_impact = 30\<rparr> =
     Inr (30 * smooth_transition (1 / 2) 0 (1 / 0.217985))"
  using boundary_value_no_penalty [of "\<lparr>min_val = 195, max_val = 205, optimal = 200, weight = 0.27,
       sensitivity = 0.217985, base_impact = 30\<rparr>"]
  by (simp add: valid_spec_def range_size_def)

text \<open>
  Claim C7. For every valid spec the impact at the optimal value is \<open>base_impact * 0.5\<close>:
  the normalized distance is 0 there, and \<open>smooth_transition x x s = 0.5\<close> for every \<open>x\<close>
  and \<open>s\<close>.
\<close>

theorem impact_at_optimal:
  assumes "valid_spec p"
  shows "calculate_parameter_impact (optimal p) p = Inr (base_impact p * 0.5) \<and>
         normalized_distance (optimal p) p = 0 \<and>
         smooth_transition x x s = 0.5"
  by (simp add: calculate_parameter_impact_valid [OF assms] base_effect_optimal
      penalty_optimal normalized_distance_def smooth_transition_center)

theorem impact_at_optimal_witness:
  "valid_spec \<lparr>min_val = 195, max_val = 205, optimal = 200, weight = 0.27,
       sensitivity = 0.217985, base_impact = 30\<rparr> \<and>
   calculate_parameter_impact 200 \<lparr>min_val = 195, max_val = 205, optimal = 200, weight = 0.27,
       sensitivity = 0.217985, base_impact = 30\<rparr> = Inr 15"
  using impact_at_optimal [of "\<lparr>min_val = 195, max_val = 205, optimal = 200, weight = 0.27,
       sensitivity = 0.217985, base_impact = 30\<rparr>"]
  by (simp add: valid_spec_def)

text \<open>
  Claim C8. The derived parameters are inert: on every complete parameter set
  \<open>calculate_total_conversion\<close> returns what the function without lines 113-116 returns.
\<close>

theorem derived_parameters_inert:
  assumes "complete_params params"
  shows "calculate_total_conversion params = calculate_total_conversion_no_derived params"
proof -
  have "set aggregate_names \<subseteq> set (keys params)"
    using assms aggregate_names_subset by (simp add: complete_params_def)
  then obtain derived where "derived_parameters params = Inr derived"
    using derived_parameters_present by blast
  then show ?thesis
    by (simp add: calculate_total_conversion_def calculate_total_conversion_no_derived_def)
qed

theorem derived_parameters_inert_witness:
  "complete_params default_params \<and>
   calculate_total_conversion default_params =
     calculate_total_conversion_no_derived default_params"
proof -
  have h: "complete_params default_params"
    by (simp add: complete_params_def keys_def default_params_def parameter_names_eq)
  from derived_parameters_inert [OF h] h show ?thesis
    by simp
qed

text \<open>
  Claim C9. A parameter set that holds the seven names read by the derived parameters and
  only names of the table, but not one of the other five names, raises nothing: the result
  is the clipped \<open>60 + sum\<close> over the items present, and the breakdown has the keys of
  \<open>params\<close>, so not the missing name.
\<close>

theorem missing_other_name_partial_result:
  assumes "set aggregate_names \<subseteq> set (keys params)"
    and "set (keys params) \<subseteq> set parameter_names"
    and "name \<in> set other_names" and "name \<notin> set (keys params)"
  shows "\<exists>impacts. calculate_total_conversion params =
             Inr (clip (60 + sum_list (map snd impacts)) 0 100, impacts) \<and>
           list_all2 impact_of params impacts \<and>
           keys impacts = keys params \<and> name \<notin> set (keys impacts)"
proof -
  obtain impacts where i:
    "calculate_total_conversion params =
       Inr (clip (60 + sum_list (map snd impacts)) 0 100, impacts)"
    "list_all2 impact_of params impacts" "keys impacts = keys params"
    using total_conversion_known [OF assms(1,2)] by blast
  then show ?thesis
    using assms(4) by auto
qed

theorem missing_other_name_partial_result_witness:
  "set aggregate_names \<subseteq> set (keys params_without_lhsv) \<and>
   set (keys params_without_lhsv) \<subseteq> set parameter_names \<and>
   ''lhsv'' \<in> set other_names \<and> ''lhsv'' \<notin> set (keys params_without_lhsv) \<and>
   (\<exists>impacts. calculate_total_conversion params_without_lhsv =
       Inr (clip (60 + sum_list (map snd impacts)) 0 100, impacts) \<and>
     ''lhsv'' \<notin> set (keys impacts))"
proof -
  have h: "set aggregate_names \<subseteq> set (keys params_without_lhsv)"
    "set (keys params_without_lhsv) \<subseteq> set parameter_names"
    "''lhsv'' \<in> set other_names" "''lhsv'' \<notin> set (keys params_without_lhsv)"
    by (simp_all add: aggregate_names_def keys_def params_without_lhsv_eq
        parameter_names_eq other_names_def)
  from missing_other_name_partial_result [OF h] h show ?thesis
    by blast
qed

text \<open>
  Claim C10, amended. For every value and every valid spec with a non-negative
  \<open>base_impact\<close> the impact is at most \<open>base_impact * 0.5\<close>; when \<open>base_impact\<close> is strictly
  positive, equality holds exactly at the optimal value.
\<close>

theorem impact_le_half_base_impact:
  assumes "valid_spec p" and "0 \<le> base_impact p"
  shows "\<exists>impact. calculate_parameter_impact v p = Inr impact \<and>
           impact \<le> base_impact p * 0.5 \<and>
           (0 < base_impact p \<longrightarrow> (impact = base_impact p * 0.5 \<longleftrightarrow> v = optimal p))"
proof -
  let ?e = "base_impact p * base_effect v p"
  let ?i = "?e * penalty v p"
  have e0: "0 \<le> ?e"
    using assms(2) base_effect_pos [of v p] by simp
  have pen: "penalty v p \<le> 1"
    using penalty_bounds [OF assms(1), of v] by simp
  have i_le: "?i \<le> ?e"
    using e0 pen by (simp add: mult_left_le)
  have "?e \<le> base_impact p * (1 / 2)"
    using assms(2) base_effect_le_half [OF assms(1), of v] by (intro mult_left_mono)
  then have bound: "?i \<le> base_impact p * 0.5"
    using i_le by simp
  have eq_iff: "?i = base_impact p * 0.5 \<longleftrightarrow> v = optimal p" if pos: "0 < base_impact p"
  proof (cases "v = optimal p")
    case True
    then show ?thesis
      by (simp add: base_effect_optimal penalty_optimal)
  next
    case False
    have "?e < base_impact p * (1 / 2)"
      using pos base_effect_less_half [OF assms(1) False] by (intro mult_strict_left_mono)
    then have "?i < base_impact p * 0.5"
      using i_le by simp
    then have "?i \<noteq> base_impact p * 0.5"
      by (rule order.strict_implies_not_eq)
    with False show ?thesis
      by blast
  qed
  show ?thesis
    using bound eq_iff by (simp add: calculate_parameter_impact_valid [OF assms(1)])
qed

theorem impact_le_half_base_impact_witness:
  "valid_spec \<lparr>min_val = 195, max_val = 205, optimal = 200, weight = 0.27,
       sensitivity = 0.217985, base_impact = 30\<rparr> \<and>
   (0::real) < base_impact \<lparr>min_val = 195, max_val = 205, optimal = 200, weight = 0.27,
       sensitivity = 0.217985, base_impact = 30\<rparr> \<and>
   calculate_parameter_impact 200 \<lparr>min_val = 195, max_val = 205, optimal = 200, weight = 0.27,
       sensitivity = 0.217985, base_impact = 30\<rparr> = Inr 15"
  using impact_le_half_base_impact [of "\<lparr>min_val = 195, max_val = 205, optimal = 200, weight = 0.27,
       sensitivity = 0.217985, base_impact = 30\<rparr>" 200]
  by (auto simp add: valid_spec_def)

text \<open>
  Claim C10 as worded fails: a valid spec with \<open>base_impact = 0\<close> has the impact
  \<open>base_impact * 0.5\<close> at 201, which is not its optimal value.
\<close>

theorem zero_base_impact_equality_off_optimal:
  "valid_spec \<lparr>min_val = 195, max_val = 205, optimal = 200, weight = 1,
       sensitivity = 1, base_impact = 0\<rparr> \<and>
   calculate_parameter_impact 201 \<lparr>min_val = 195, max_val = 205, optimal = 200, weight = 1,
       sensitivity = 1, base_impact = 0\<rparr> =
     Inr (base_impact \<lparr>min_val = 195, max_val = 205, optimal = 200, weight = 1,
       sensitivity = 1, base_impact = 0\<rparr> * 0.5) \<and>
   (201::real) \<noteq> optimal \<lparr>min_val = 195, max_val = 205, optimal = 200, weight = 1,
       sensitivity = 1, base_impact = 0\<rparr>"
  by (simp add: valid_spec_def calculate_parameter_impact_def range_size_def)

end
